theory Spec2Isabelle
  imports Main "HOL-Library.Sublist"
begin

section \<open>Strings\<close>

text \<open>
  Python's \<^verbatim>\<open>str\<close> is modelled by \<^typ>\<open>string\<close>, one \<^typ>\<open>char\<close> per code point, so the
  model covers the strings over the code points 0..255. On that range the regular
  expression class \<^verbatim>\<open>\D\<close> (everything but a Unicode decimal digit) is exactly the complement
  of the ten characters 0..9, and \<^verbatim>\<open>len\<close> is \<^const>\<open>length\<close>.
\<close>

definition isdigit :: "char \<Rightarrow> bool" where
  "isdigit c = (c \<in> set ''0123456789'')"

text \<open>\<^verbatim>\<open>re.sub(r'\D', '', s)\<close>: a scan that drops every character matching \<^verbatim>\<open>\D\<close>.\<close>

fun re_sub_nondigit :: "string \<Rightarrow> string" where
  "re_sub_nondigit [] = []"
| "re_sub_nondigit (c # cs) =
     (if isdigit c then c # re_sub_nondigit cs else re_sub_nondigit cs)"

text \<open>\<^verbatim>\<open>s.startswith(p)\<close>.\<close>

definition startswith :: "string \<Rightarrow> string \<Rightarrow> bool" where
  "startswith s p = (take (length p) s = p)"

text \<open>\<^verbatim>\<open>s[-4:]\<close>: the last four characters, the whole string when it is shorter.\<close>

definition last4 :: "string \<Rightarrow> string" where
  "last4 s = drop (length s - 4) s"

text \<open>\<^verbatim>\<open>not v\<close> for a value that is \<^verbatim>\<open>None\<close> or a string: true for \<^verbatim>\<open>None\<close> and for \<^verbatim>\<open>''\<close>.\<close>

definition falsy :: "string option \<Rightarrow> bool" where
  "falsy v = (case v of None \<Rightarrow> True | Some s \<Rightarrow> s = [])"

section \<open>Phone normalisation (\<^verbatim>\<open>TwilioSMSClient._format_phone_number\<close>)\<close>

text \<open>
  \<^verbatim>\<open>
  def _format_phone_number(self, phone_number):
      digits_only = re.sub(r'\D', '', phone_number)
      if len(digits_only) == 10:
          return f"+1{digits_only}"
      elif len(digits_only) == 11 and digits_only.startswith('1'):
          return f"+{digits_only}"
      else:
          return f"+{digits_only}"
  \<close>
\<close>

definition format_phone_number :: "string \<Rightarrow> string" where
  "format_phone_number phone_number =
     (let digits_only = re_sub_nondigit phone_number in
      if length digits_only = 10 then ''+1'' @ digits_only
      else if length digits_only = 11 \<and> startswith digits_only ''1'' then ''+'' @ digits_only
      else ''+'' @ digits_only)"

text \<open>
  The normaliser as the specification words it: strip the non-digits; ten digits get the
  default country code in front; eleven digits that begin with the country-code digit get
  a plus sign; everything else gets a plus sign in front of the digits as they are.
\<close>

definition default_country_code :: string where
  "default_country_code = ''+1''"

definition country_code_digit :: char where
  "country_code_digit = CHR ''1''"

definition normalize_spec :: "string \<Rightarrow> string" where
  "normalize_spec raw =
     (let ds = filter isdigit raw in
      if length ds = 10 then default_country_code @ ds
      else if length ds = 11 \<and> hd ds = country_code_digit then CHR ''+'' # ds
      else CHR ''+'' # ds)"

section \<open>Data model\<close>

text \<open>
  A raised Python exception, carrying \<^verbatim>\<open>str(e)\<close>.
\<close>

datatype exn = Exception string

text \<open>
  The backend's payload is JSON: a stop is a dictionary, read with \<^verbatim>\<open>stop['id']\<close>,
  \<^verbatim>\<open>stop.get('deliveryStatus')\<close> and \<^verbatim>\<open>stop.get('contact', {}).get('phone')\<close>. The records
  hold the keys the code reads; a key read with \<^verbatim>\<open>.get\<close> may be missing and is an option.
  A key that two dictionaries share is prefixed with its owner (\<open>stop_id\<close> is the key
  \<^verbatim>\<open>id\<close> of a stop, \<open>route_id\<close> the key \<^verbatim>\<open>id\<close> of a route, \<open>d_phone\<close> the key \<^verbatim>\<open>phone\<close> of a
  result detail).

  The payload is taken as the backend documents it: every stop and every route has its
  \<^verbatim>\<open>id\<close>, a contact that is present is a dictionary, and a status, a name or a phone that
  is present is a string. (On a payload outside this shape the Python code raises a
  \<^verbatim>\<open>KeyError\<close>, \<^verbatim>\<open>AttributeError\<close> or \<^verbatim>\<open>TypeError\<close>; the records exclude it.)
\<close>

record contact_info =
  contact_name :: "string option"
  contact_phone :: "string option"

record stop =
  stop_id :: string
  deliveryStatus :: "string option"
  stop_contact :: "contact_info option"

record route =
  route_id :: string
  route_stops :: "stop list option"

text \<open>
  The dataclasses \<^verbatim>\<open>RouteStop\<close> and \<^verbatim>\<open>Route\<close> of \<^verbatim>\<open>models/route.py\<close>, with their properties.
  Fields whose names are taken (\<^verbatim>\<open>id\<close>, \<^verbatim>\<open>contact\<close>, \<^verbatim>\<open>address\<close>, \<^verbatim>\<open>note\<close>, \<^verbatim>\<open>name\<close>, \<^verbatim>\<open>stops\<close>) carry
  the prefix \<open>rs_\<close> or \<open>r_\<close>. The two dictionaries \<^verbatim>\<open>contact\<close> and \<^verbatim>\<open>address\<close> are read with
  \<^verbatim>\<open>.get("phone", "")\<close>, \<^verbatim>\<open>.get("name", "")\<close> and \<^verbatim>\<open>.get("formatted", "")\<close>.
\<close>

record address_info =
  formatted :: "string option"

record RouteStop =
  rs_id :: string
  delivery_status :: string
  rs_contact :: contact_info
  rs_address :: address_info
  rs_note :: string

record Route =
  r_id :: string
  r_name :: string
  r_stops :: "RouteStop list"
  driver :: "(string \<times> string) list"
  scheduled_for :: string

definition is_incomplete :: "RouteStop \<Rightarrow> bool" where
  "is_incomplete self = (delivery_status self \<noteq> ''DELIVERED'')"

definition phone_number :: "RouteStop \<Rightarrow> string" where
  "phone_number self = (case contact_phone (rs_contact self) of None \<Rightarrow> [] | Some p \<Rightarrow> p)"

definition customer_name :: "RouteStop \<Rightarrow> string" where
  "customer_name self = (case contact_name (rs_contact self) of None \<Rightarrow> [] | Some n \<Rightarrow> n)"

text \<open>\<^verbatim>\<open>Route.incomplete_stops\<close>: \<^verbatim>\<open>[stop for stop in self.stops if stop.is_incomplete]\<close>.\<close>

definition incomplete_stops :: "Route \<Rightarrow> RouteStop list" where
  "incomplete_stops self = [stop \<leftarrow> r_stops self. is_incomplete stop]"

section \<open>The routing backend client (\<^verbatim>\<open>EasyRoutesClient\<close>)\<close>

text \<open>
  The two fetches \<^verbatim>\<open>get_route\<close> and \<^verbatim>\<open>get_route_by_number\<close> are network calls whose code is
  not part of the sources; they are parameters of the model: each returns its value or
  raises. \<^verbatim>\<open>get_route_by_number\<close> may return a false value when there is no such route.
\<close>

record EasyRoutesClient =
  get_route :: "string \<Rightarrow> exn + route"
  get_route_by_number :: "string \<Rightarrow> exn + route option"

text \<open>
  \<^verbatim>\<open>
  incomplete_stops = []
  for stop in route.get("stops", []):
      delivery_status = stop.get("deliveryStatus")
      if delivery_status != "DELIVERED":
          incomplete_stops.append(stop)
  return incomplete_stops
  \<close>
\<close>

fun incomplete_loop :: "stop list \<Rightarrow> stop list \<Rightarrow> stop list" where
  "incomplete_loop [] acc = acc"
| "incomplete_loop (stop # rest) acc =
     (if deliveryStatus stop \<noteq> Some ''DELIVERED''
      then incomplete_loop rest (acc @ [stop])
      else incomplete_loop rest acc)"

definition stops_of :: "route \<Rightarrow> stop list" where
  "stops_of r = (case route_stops r of None \<Rightarrow> [] | Some ss \<Rightarrow> ss)"

definition get_incomplete_stops :: "EasyRoutesClient \<Rightarrow> string \<Rightarrow> exn + stop list" where
  "get_incomplete_stops self rid =
     (case get_route self rid of
        Inl e \<Rightarrow> Inl e
      | Inr r \<Rightarrow> Inr (incomplete_loop (stops_of r) []))"

section \<open>The SMS client (\<^verbatim>\<open>TwilioSMSClient\<close>)\<close>

text \<open>
  What one invocation does to the outside world is a trace of events: each call of the
  normaliser and each request handed to the provider (\<^verbatim>\<open>client.messages.create\<close> with its
  body, sender and recipient). The provider is a parameter: given the trace so far and
  the request it creates a message (with its sid and status), raises a
  \<^verbatim>\<open>TwilioException\<close>, or raises something else. \<open>FormatPhoneNumber\<close> carries the number as
  it was passed in; \<open>MessagesCreate\<close> and \<open>messages_create\<close> take the body, the sender and
  the recipient, in this order.
\<close>

datatype event =
  FormatPhoneNumber string
| MessagesCreate string string string

datatype provider_reply =
  Created string string
| RaisesTwilioException string
| RaisesException string

record TwilioSMSClient =
  from_number :: string
  messages_create :: "event list \<Rightarrow> string \<Rightarrow> string \<Rightarrow> string \<Rightarrow> provider_reply"

text \<open>
  The dictionary \<^verbatim>\<open>send_message\<close> returns: \<^verbatim>\<open>{"success": True, "message_sid", "status", "to"}\<close>
  or \<^verbatim>\<open>{"success": False, "error", "to"}\<close>, the values in this order.
\<close>

datatype sms_result =
  Success string string string
| Failure string string

text \<open>
  \<^verbatim>\<open>
  try:
      formatted_number = self._format_phone_number(to_number)
      message = self.client.messages.create(body=message_body, from_=self.from_number,
                                            to=formatted_number)
      return {"success": True, "message_sid": message.sid, "status": message.status,
              "to": formatted_number}
  except TwilioException as e:
      return {"success": False, "error": str(e), "to": to_number}
  \<close>
  Only a \<^verbatim>\<open>TwilioException\<close> is caught; any other exception leaves \<^verbatim>\<open>send_message\<close>.
\<close>

definition send_message ::
  "TwilioSMSClient \<Rightarrow> event list \<Rightarrow> string \<Rightarrow> string \<Rightarrow> (exn + sms_result) \<times> event list" where
  "send_message self log to_number message_body =
     (let formatted_number = format_phone_number to_number;
          log1 = log @ [FormatPhoneNumber to_number];
          log2 = log1 @ [MessagesCreate message_body (from_number self) formatted_number]
      in case messages_create self log1 message_body (from_number self) formatted_number of
           Created sid st \<Rightarrow> (Inr (Success sid st formatted_number), log2)
         | RaisesTwilioException e \<Rightarrow> (Inr (Failure e to_number), log2)
         | RaisesException e \<Rightarrow> (Inl (Exception e), log2))"

section \<open>The web pipeline (\<^verbatim>\<open>send_sms\<close>, \<^verbatim>\<open>send_messages_to_stops\<close>)\<close>

text \<open>
  The handler's clients are the two clients above: \<^verbatim>\<open>easyroutes.get_incomplete_stops\<close> and
  \<^verbatim>\<open>twilio_client.send_message\<close> are the methods of \<^verbatim>\<open>EasyRoutesClient\<close> and \<^verbatim>\<open>TwilioSMSClient\<close>.
\<close>

text \<open>
  One entry of \<^verbatim>\<open>results['details']\<close>. A key the entry does not have is \<open>None\<close>; \<open>d_phone\<close>
  is \<open>None\<close> exactly where the code stores \<^verbatim>\<open>'phone': None\<close>.
\<close>

record detail =
  d_stop_id :: string
  d_status :: string
  d_error :: "string option"
  d_phone :: "string option"
  d_message_sid :: "string option"

record results =
  total_stops :: int
  messages_sent :: int
  failures :: int
  details :: "detail list"

text \<open>\<^verbatim>\<open>stop.get('contact', {}).get('phone')\<close>.\<close>

definition stop_phone :: "stop \<Rightarrow> string option" where
  "stop_phone s = (case stop_contact s of None \<Rightarrow> None | Some c \<Rightarrow> contact_phone c)"

text \<open>The three kinds of entry the loop appends.\<close>

definition no_phone_detail :: "stop \<Rightarrow> detail" where
  "no_phone_detail s =
     \<lparr>d_stop_id = stop_id s, d_status = ''failed'', d_error = Some ''No phone number'',
      d_phone = None, d_message_sid = None\<rparr>"

definition sent_detail :: "stop \<Rightarrow> string \<Rightarrow> string \<Rightarrow> detail" where
  "sent_detail s pn sid =
     \<lparr>d_stop_id = stop_id s, d_status = ''sent'', d_error = None,
      d_phone = Some (last4 pn), d_message_sid = Some sid\<rparr>"

definition failed_detail :: "stop \<Rightarrow> string \<Rightarrow> string \<Rightarrow> detail" where
  "failed_detail s pn err =
     \<lparr>d_stop_id = stop_id s, d_status = ''failed'', d_error = Some err,
      d_phone = Some (last4 pn), d_message_sid = None\<rparr>"

definition record_sent :: "detail \<Rightarrow> results \<Rightarrow> results" where
  "record_sent d r = r\<lparr>details := details r @ [d], messages_sent := messages_sent r + 1\<rparr>"

definition record_failure :: "detail \<Rightarrow> results \<Rightarrow> results" where
  "record_failure d r = r\<lparr>details := details r @ [d], failures := failures r + 1\<rparr>"

text \<open>
  The body of \<^verbatim>\<open>for stop in stops\<close>, on the results so far and the trace so far:
  \<^verbatim>\<open>
  phone_number = stop.get('contact', {}).get('phone')
  if not phone_number:
      results['details'].append({... 'status': 'failed', 'error': 'No phone number',
                                 'phone': None})
      results['failures'] += 1
      continue
  try:
      sms_result = await twilio_client.send_message(phone_number, message)
      if sms_result['success']:
          results['details'].append({... 'status': 'sent', 'phone': phone_number[-4:],
                                     'message_sid': sms_result['message_sid']})
          results['messages_sent'] += 1
      else:
          results['details'].append({... 'status': 'failed', 'error': sms_result['error'],
                                     'phone': phone_number[-4:]})
          results['failures'] += 1
  except Exception as e:
      results['details'].append({... 'status': 'failed', 'error': str(e),
                                 'phone': phone_number[-4:]})
      results['failures'] += 1
  \<close>
\<close>

definition handle_stop ::
  "TwilioSMSClient \<Rightarrow> string \<Rightarrow> results \<times> event list \<Rightarrow> stop \<Rightarrow> results \<times> event list" where
  "handle_stop twilio_client msg st s =
     (case st of (r, log) \<Rightarrow>
        (case stop_phone s of
           None \<Rightarrow> (record_failure (no_phone_detail s) r, log)
         | Some pn \<Rightarrow>
             if pn = [] then (record_failure (no_phone_detail s) r, log)
             else
               (case send_message twilio_client log pn msg of
                  (Inr (Success sid status to), log') \<Rightarrow>
                    (record_sent (sent_detail s pn sid) r, log')
                | (Inr (Failure err to), log') \<Rightarrow>
                    (record_failure (failed_detail s pn err) r, log')
                | (Inl (Exception err), log') \<Rightarrow>
                    (record_failure (failed_detail s pn err) r, log'))))"

definition send_messages_to_stops ::
  "TwilioSMSClient \<Rightarrow> event list \<Rightarrow> stop list \<Rightarrow> string \<Rightarrow> results \<times> event list" where
  "send_messages_to_stops twilio_client log stops msg =
     foldl (handle_stop twilio_client msg)
       (\<lparr>total_stops = int (length stops), messages_sent = 0, failures = 0, details = []\<rparr>, log)
       stops"

text \<open>
  The JSON body of the request (\<^verbatim>\<open>data.get('route_number')\<close>, \<^verbatim>\<open>data.get('message')\<close>) and the
  response: \<^verbatim>\<open>{'error': ...}\<close>, or \<^verbatim>\<open>{'success': True, 'results': ...}\<close> with an optional
  \<^verbatim>\<open>'message'\<close>; with it the HTTP status.
\<close>

record sms_request =
  route_number :: "string option"
  message :: "string option"

datatype json =
  ErrorJson string
| SuccessJson "string option" results

definition send_sms ::
  "EasyRoutesClient \<Rightarrow> TwilioSMSClient \<Rightarrow> event list \<Rightarrow> sms_request
     \<Rightarrow> (json \<times> nat) \<times> event list" where
  "send_sms easyroutes twilio log data =
     (if falsy (route_number data) \<or> falsy (message data)
      then ((ErrorJson ''Route number and message are required'', 400), log)
      else
        (case (route_number data, message data) of
           (Some rn, Some msg) \<Rightarrow>
             if length msg > 160
             then ((ErrorJson ''Message too long (max 160 characters)'', 400), log)
             else
               (case get_route_by_number easyroutes rn of
                  Inl (Exception e) \<Rightarrow> ((ErrorJson e, 500), log)
                | Inr None \<Rightarrow> ((ErrorJson (''Route '' @ rn @ '' not found''), 404), log)
                | Inr (Some r) \<Rightarrow>
                    (case get_incomplete_stops easyroutes (route_id r) of
                       Inl (Exception e) \<Rightarrow> ((ErrorJson e, 500), log)
                     | Inr stops \<Rightarrow>
                         if stops = []
                         then ((SuccessJson (Some ''No incomplete stops found for this route'')
                                  \<lparr>total_stops = 0, messages_sent = 0, failures = 0,
                                   details = []\<rparr>, 200), log)
                         else
                           (case send_messages_to_stops twilio log stops msg of
                              (res, log') \<Rightarrow> ((SuccessJson None res, 200), log'))))
         | _ \<Rightarrow> ((ErrorJson ''Route number and message are required'', 400), log)))"

section \<open>The command-line pipeline (\<^verbatim>\<open>process_routes\<close>)\<close>

text \<open>
  \<^verbatim>\<open>templates.render\<close> and \<^verbatim>\<open>templates.get_status_message\<close> are not part of the sources; they
  are parameters, each returning its string or raising. \<^verbatim>\<open>render\<close> takes the template name,
  the customer name, the address and the status message.
\<close>

record MessageTemplates =
  render :: "string \<Rightarrow> string \<Rightarrow> string \<Rightarrow> string \<Rightarrow> exn + string"
  get_status_message :: "string \<Rightarrow> exn + string"

text \<open>
  The loop over one route's incomplete stops, on the results so far and the trace so
  far; an exception that leaves \<^verbatim>\<open>send_message\<close>, \<^verbatim>\<open>render\<close> or \<^verbatim>\<open>get_status_message\<close> ends
  \<^verbatim>\<open>process_routes\<close>:
  \<^verbatim>\<open>
  for stop in route.incomplete_stops:
      if not stop.phone_number:
          logger.warning(f"No phone number for stop {stop.id}")
          continue
      message_body = templates.render(template_name="default",
          customer_name=stop.customer_name, address=stop.address.get("formatted", ""),
          status_message=templates.get_status_message(stop.delivery_status))
      if not config.dry_run:
          result = await twilio_client.send_message(stop.phone_number, message_body)
          results.append(result)
          await asyncio.sleep(1)
      else:
          logger.info(...)
  \<close>
\<close>

fun process_stops ::
  "TwilioSMSClient \<Rightarrow> MessageTemplates \<Rightarrow> bool \<Rightarrow> RouteStop list
     \<Rightarrow> sms_result list \<times> event list \<Rightarrow> (exn + sms_result list) \<times> event list" where
  "process_stops tw templates dry_run [] (res, log) = (Inr res, log)"
| "process_stops tw templates dry_run (stop # rest) (res, log) =
     (if phone_number stop = [] then process_stops tw templates dry_run rest (res, log)
      else
        (case get_status_message templates (delivery_status stop) of
           Inl e \<Rightarrow> (Inl e, log)
         | Inr status_message \<Rightarrow>
             (case render templates ''default'' (customer_name stop)
                     (case formatted (rs_address stop) of None \<Rightarrow> [] | Some a \<Rightarrow> a)
                     status_message of
                Inl e \<Rightarrow> (Inl e, log)
              | Inr message_body \<Rightarrow>
                  if \<not> dry_run then
                    (case send_message tw log (phone_number stop) message_body of
                       (Inl e, log') \<Rightarrow> (Inl e, log')
                     | (Inr result, log') \<Rightarrow>
                         process_stops tw templates dry_run rest (res @ [result], log'))
                  else process_stops tw templates dry_run rest (res, log))))"

text \<open>
  \<^verbatim>\<open>process_routes\<close> over the routes of the listing, each already built by
  \<^verbatim>\<open>Route.from_dict\<close> (which is not part of the sources).
\<close>

fun process_routes ::
  "TwilioSMSClient \<Rightarrow> MessageTemplates \<Rightarrow> bool \<Rightarrow> Route list
     \<Rightarrow> sms_result list \<times> event list \<Rightarrow> (exn + sms_result list) \<times> event list" where
  "process_routes tw templates dry_run [] (res, log) = (Inr res, log)"
| "process_routes tw templates dry_run (r # routes) (res, log) =
     (case process_stops tw templates dry_run (incomplete_stops r) (res, log) of
        (Inl e, log') \<Rightarrow> (Inl e, log')
      | (Inr res', log') \<Rightarrow> process_routes tw templates dry_run routes (res', log'))"

section \<open>Auxiliary notions for the proofs\<close>

text \<open>
  Results with nothing counted yet, and the results of two consecutive stretches of the
  loop put together (the first stretch keeps its \<open>total_stops\<close>).
\<close>

definition zero_results :: "int \<Rightarrow> results" where
  "zero_results n = \<lparr>total_stops = n, messages_sent = 0, failures = 0, details = []\<rparr>"

definition merge_results :: "results \<Rightarrow> results \<Rightarrow> results" where
  "merge_results r d =
     r\<lparr>messages_sent := messages_sent r + messages_sent d,
       failures := failures r + failures d,
       details := details r @ details d\<rparr>"

text \<open>The events the turn of one stop adds to the trace.\<close>

definition stop_events :: "TwilioSMSClient \<Rightarrow> string \<Rightarrow> stop \<Rightarrow> event list" where
  "stop_events tw msg s =
     (case stop_phone s of
        None \<Rightarrow> []
      | Some pn \<Rightarrow>
          if pn = [] then []
          else [FormatPhoneNumber pn,
                MessagesCreate msg (from_number tw) (format_phone_number pn)])"

text \<open>The results a response carries, if any.\<close>

definition response_results :: "json \<Rightarrow> results option" where
  "response_results j = (case j of ErrorJson e \<Rightarrow> None | SuccessJson m r \<Rightarrow> Some r)"

section \<open>Example values\<close>

text \<open>
  A provider that accepts the number \<^verbatim>\<open>+15551230002\<close> and reports every other number as
  invalid.
\<close>

definition example_twilio :: TwilioSMSClient where
  "example_twilio =
     \<lparr>from_number = ''+15550000000'',
      messages_create = (\<lambda>log body sender recipient.
        if recipient = ''+15551230002''
        then Created ''SM0001'' ''queued''
        else RaisesTwilioException ''InvalidNumber'')\<rparr>"

definition example_stop :: "string \<Rightarrow> string option \<Rightarrow> string option \<Rightarrow> stop" where
  "example_stop i st ph =
     \<lparr>stop_id = i, deliveryStatus = st,
      stop_contact = Some \<lparr>contact_name = Some ''Customer'', contact_phone = ph\<rparr>\<rparr>"

definition stop_A :: stop where
  "stop_A = example_stop ''A'' (Some ''OUT_FOR_DELIVERY'') None"

definition stop_B :: stop where
  "stop_B = example_stop ''B'' (Some ''READY_FOR_DELIVERY'') (Some ''(555) 123-0002'')"

definition stop_C :: stop where
  "stop_C = example_stop ''C'' (Some ''UNKNOWN'') (Some ''12'')"

definition stop_D :: stop where
  "stop_D = example_stop ''D'' (Some ''DELIVERED'') (Some ''555-123-0004'')"

definition stop_E :: stop where
  "stop_E = example_stop ''E'' None (Some ''555-123-0005'')"

definition stop_F :: stop where
  "stop_F = example_stop ''F'' (Some ''OUT_FOR_DELIVERY'') (Some ''06 12 34 56 78'')"

definition example_route :: route where
  "example_route = \<lparr>route_id = ''R1'', route_stops = Some [stop_D, stop_A, stop_B, stop_C]\<rparr>"

definition delivered_route :: route where
  "delivered_route = \<lparr>route_id = ''R2'', route_stops = Some [stop_D, stop_D]\<rparr>"

definition unlabelled_route :: route where
  "unlabelled_route = \<lparr>route_id = ''R3'', route_stops = Some [stop_D, stop_E, stop_B]\<rparr>"

definition example_easyroutes :: EasyRoutesClient where
  "example_easyroutes =
     \<lparr>get_route = (\<lambda>rid.
        if rid = ''R1'' then Inr example_route
        else if rid = ''R2'' then Inr delivered_route
        else if rid = ''R3'' then Inr unlabelled_route
        else Inl (Exception ''route not found'')),
      get_route_by_number = (\<lambda>n.
        if n = ''RT-1'' then Inr (Some example_route)
        else if n = ''RT-2'' then Inr (Some delivered_route)
        else Inr None)\<rparr>"

definition example_route_stop :: "string \<Rightarrow> string \<Rightarrow> string option \<Rightarrow> RouteStop" where
  "example_route_stop i st ph =
     \<lparr>rs_id = i, delivery_status = st,
      rs_contact = \<lparr>contact_name = Some ''Customer'', contact_phone = ph\<rparr>,
      rs_address = \<lparr>formatted = Some ''1 Main St''\<rparr>, rs_note = []\<rparr>"

definition example_Route :: Route where
  "example_Route =
     \<lparr>r_id = ''R1'', r_name = ''Morning'',
      r_stops = [example_route_stop ''D'' ''DELIVERED'' (Some ''555-123-0004''),
                 example_route_stop ''A'' ''OUT_FOR_DELIVERY'' None,
                 example_route_stop ''B'' ''READY_FOR_DELIVERY'' (Some ''(555) 123-0002'')],
      driver = [], scheduled_for = ''2025-07-24''\<rparr>"

definition example_templates :: MessageTemplates where
  "example_templates =
     \<lparr>render = (\<lambda>template_name customer address status_message.
        Inr (''Hello '' @ customer @ '', your delivery is '' @ status_message)),
      get_status_message = (\<lambda>st. Inr ''on its way'')\<rparr>"

text \<open>
  A provider whose call breaks with an exception that is not a \<^verbatim>\<open>TwilioException\<close> for every
  number but \<^verbatim>\<open>+15551230002\<close>, and a route whose one incomplete stop has no phone.
\<close>

definition flaky_twilio :: TwilioSMSClient where
  "flaky_twilio =
     \<lparr>from_number = ''+15550000000'',
      messages_create = (\<lambda>log body sender recipient.
        if recipient = ''+15551230002''
        then Created ''SM0001'' ''queued''
        else RaisesException ''Connection reset by peer'')\<rparr>"

definition no_phone_Route :: Route where
  "no_phone_Route =
     \<lparr>r_id = ''R4'', r_name = ''Evening'',
      r_stops = [example_route_stop ''D'' ''DELIVERED'' (Some ''555-123-0004''),
                 example_route_stop ''A'' ''OUT_FOR_DELIVERY'' None],
      driver = [], scheduled_for = ''2025-07-24''\<rparr>"

section \<open>Properties of the normaliser\<close>

lemma re_sub_nondigit_filter: "re_sub_nondigit s = filter isdigit s"
  by (induction s) simp_all

lemma re_sub_nondigit_idem: "re_sub_nondigit (re_sub_nondigit s) = re_sub_nondigit s"
  by (simp add: re_sub_nondigit_filter)

lemma plus_not_digit: "\<not> isdigit CHR ''+''"
  by (simp add: isdigit_def)

lemma one_is_digit: "isdigit CHR ''1''"
  by (simp add: isdigit_def)

lemma startswith_one: "startswith ds ''1'' \<longleftrightarrow> ds \<noteq> [] \<and> hd ds = CHR ''1''"
  by (cases ds) (simp_all add: startswith_def)

lemma digits_of_formatted:
  "re_sub_nondigit (format_phone_number p) =
     (if length (re_sub_nondigit p) = 10 then CHR ''1'' # re_sub_nondigit p
      else re_sub_nondigit p)"
  by (simp add: format_phone_number_def Let_def re_sub_nondigit_idem plus_not_digit one_is_digit)

lemma format_phone_number_by_digits:
  "re_sub_nondigit q = ds \<Longrightarrow>
   format_phone_number q = (if length ds = 10 then ''+1'' @ ds else ''+'' @ ds)"
  by (simp add: format_phone_number_def)

lemma format_phone_number_shape:
  "\<exists>ds. format_phone_number p = CHR ''+'' # ds \<and> list_all isdigit ds"
  by (auto simp: format_phone_number_def Let_def re_sub_nondigit_filter one_is_digit
      list_all_iff)

text \<open>
  C6. For every input string the normaliser computes what the specification describes:
  it strips all non-digit characters; if exactly ten digits remain the result is the
  default country code \<^verbatim>\<open>+1\<close> followed by the digits; if eleven digits remain and the first
  is the country-code digit \<^verbatim>\<open>1\<close> the result is \<^verbatim>\<open>+\<close> followed by the digits; otherwise
  the result is \<^verbatim>\<open>+\<close> followed by the digit string as it is.
\<close>

theorem format_phone_number_refines_spec:
  "format_phone_number p = normalize_spec p"
proof -
  have "startswith ds ''1'' = (hd ds = country_code_digit)" if "length ds = 11" for ds
    using that by (cases ds) (simp_all add: startswith_def country_code_digit_def)
  then show ?thesis
    by (auto simp: format_phone_number_def normalize_spec_def Let_def
        re_sub_nondigit_filter default_country_code_def)
qed

theorem format_phone_number_refines_spec_witness:
  "format_phone_number ''(555) 123-4567'' = ''+15551234567''
   \<and> normalize_spec ''(555) 123-4567'' = ''+15551234567''"
  using format_phone_number_refines_spec [of "''(555) 123-4567''"]
  by (simp add: normalize_spec_def Let_def isdigit_def default_country_code_def)

text \<open>
  C7. The normaliser is idempotent: applied to its own output it returns that output; in
  particular \<^verbatim>\<open>+15551234567\<close> is normalised to itself.
\<close>

theorem format_phone_number_idempotent:
  "format_phone_number (format_phone_number p) = format_phone_number p
   \<and> format_phone_number ''+15551234567'' = ''+15551234567''"
proof
  let ?d = "re_sub_nondigit p"
  have "format_phone_number (format_phone_number p) =
          (if length ?d = 10 then ''+'' @ (CHR ''1'' # ?d) else ''+'' @ ?d)"
    by (simp add: format_phone_number_by_digits [OF digits_of_formatted])
  also have "\<dots> = format_phone_number p"
    by (simp add: format_phone_number_by_digits [OF refl])
  finally show "format_phone_number (format_phone_number p) = format_phone_number p" .
next
  show "format_phone_number ''+15551234567'' = ''+15551234567''"
    by (simp add: format_phone_number_def isdigit_def startswith_def)
qed

theorem format_phone_number_idempotent_witness:
  "format_phone_number (format_phone_number ''555.123.4567'') = ''+15551234567''"
  using format_phone_number_idempotent [of "''555.123.4567''"]
  by (simp add: format_phone_number_def isdigit_def)

section \<open>Properties of the incomplete-stop filter\<close>

lemma incomplete_loop_filter:
  "incomplete_loop ss acc = acc @ filter (\<lambda>s. deliveryStatus s \<noteq> Some ''DELIVERED'') ss"
  by (induction ss arbitrary: acc) simp_all

lemma get_incomplete_stops_raises:
  "get_route self rid = Inl e \<Longrightarrow> get_incomplete_stops self rid = Inl e"
  by (simp add: get_incomplete_stops_def)

text \<open>
  C1. For every route the incomplete-stop filter, in both of its forms
  (\<^verbatim>\<open>EasyRoutesClient.get_incomplete_stops\<close> on the backend's dictionaries and
  \<^verbatim>\<open>Route.incomplete_stops\<close> on the dataclass), returns exactly the stops whose status is
  not \<^verbatim>\<open>DELIVERED\<close>, in the route's order: the result is the route's stop list filtered by
  the status test, so it is a subsequence of the stop list, every stop whose status is
  not \<^verbatim>\<open>DELIVERED\<close> is in it and no \<^verbatim>\<open>DELIVERED\<close> stop is.
\<close>

theorem incomplete_stops_exact:
  "(get_route self rid = Inr r \<longrightarrow>
      (\<exists>res. get_incomplete_stops self rid = Inr res
         \<and> res = filter (\<lambda>s. deliveryStatus s \<noteq> Some ''DELIVERED'') (stops_of r)
         \<and> subseq res (stops_of r)
         \<and> (\<forall>s \<in> set (stops_of r).
               s \<in> set res \<longleftrightarrow> deliveryStatus s \<noteq> Some ''DELIVERED'')))
   \<and> incomplete_stops R = filter (\<lambda>s. delivery_status s \<noteq> ''DELIVERED'') (r_stops R)
   \<and> subseq (incomplete_stops R) (r_stops R)
   \<and> (\<forall>s \<in> set (r_stops R).
         s \<in> set (incomplete_stops R) \<longleftrightarrow> delivery_status s \<noteq> ''DELIVERED'')"
proof -
  have "get_incomplete_stops self rid =
          Inr (filter (\<lambda>s. deliveryStatus s \<noteq> Some ''DELIVERED'') (stops_of r))"
    if "get_route self rid = Inr r"
    using that by (simp add: get_incomplete_stops_def incomplete_loop_filter)
  moreover have "incomplete_stops R = filter (\<lambda>s. delivery_status s \<noteq> ''DELIVERED'') (r_stops R)"
    by (simp add: incomplete_stops_def is_incomplete_def)
  ultimately show ?thesis
    by simp
qed

theorem incomplete_stops_exact_witness:
  "get_incomplete_stops example_easyroutes ''R1'' = Inr [stop_A, stop_B, stop_C]
   \<and> map rs_id (incomplete_stops example_Route) = [''A'', ''B'']"
proof -
  have r: "get_route example_easyroutes ''R1'' = Inr example_route"
    by (simp add: example_easyroutes_def)
  from r incomplete_stops_exact [of example_easyroutes "''R1''" example_route example_Route]
  show ?thesis
    by (simp add: stops_of_def example_route_def example_Route_def example_route_stop_def
        stop_A_def stop_B_def stop_C_def stop_D_def example_stop_def)
qed

text \<open>
  C10. A stop whose \<^verbatim>\<open>deliveryStatus\<close> key is missing is kept by the filter, at its place in
  the route's order, exactly as a stop whose status is \<^verbatim>\<open>UNKNOWN\<close> is.
\<close>

theorem missing_status_is_incomplete:
  assumes "get_route self rid = Inr r"
    and "stops_of r = xs @ s # ys"
    and "deliveryStatus s = None \<or> deliveryStatus s = Some ''UNKNOWN''"
  shows "get_incomplete_stops self rid =
           Inr (filter (\<lambda>s. deliveryStatus s \<noteq> Some ''DELIVERED'') xs
                @ s # filter (\<lambda>s. deliveryStatus s \<noteq> Some ''DELIVERED'') ys)"
  using assms by (auto simp: get_incomplete_stops_def incomplete_loop_filter)

theorem missing_status_is_incomplete_witness:
  "get_incomplete_stops example_easyroutes ''R3'' = Inr [stop_E, stop_B]"
proof -
  have r: "get_route example_easyroutes ''R3'' = Inr unlabelled_route"
    by (simp add: example_easyroutes_def)
  have s: "stops_of unlabelled_route = [stop_D] @ stop_E # [stop_B]"
    by (simp add: stops_of_def unlabelled_route_def)
  have e: "deliveryStatus stop_E = None \<or> deliveryStatus stop_E = Some ''UNKNOWN''"
    by (simp add: stop_E_def example_stop_def)
  from missing_status_is_incomplete [OF r s e]
  show ?thesis
    by (simp add: stop_B_def stop_D_def example_stop_def)
qed

section \<open>Properties of the stop loop\<close>

lemma merge_results_assoc:
  "merge_results (merge_results a b) c = merge_results a (merge_results b c)"
  by (simp add: merge_results_def)

lemma handle_stop_merge:
  "handle_stop tw msg (r, log) s =
     (merge_results r (fst (handle_stop tw msg (zero_results n, log) s)),
      snd (handle_stop tw msg (zero_results n, log) s))"
  by (simp add: handle_stop_def merge_results_def zero_results_def record_sent_def
      record_failure_def split: option.splits prod.splits sum.splits sms_result.splits exn.splits)

lemma foldl_handle_stop_merge:
  "foldl (handle_stop tw msg) (r, log) ss =
     (merge_results r (fst (foldl (handle_stop tw msg) (zero_results n, log) ss)),
      snd (foldl (handle_stop tw msg) (zero_results n, log) ss))"
proof (induction ss arbitrary: r log n)
  case Nil
  show ?case by (simp add: merge_results_def zero_results_def)
next
  case (Cons s ss)
  obtain d log1 where d: "handle_stop tw msg (zero_results n, log) s = (d, log1)"
    by (cases "handle_stop tw msg (zero_results n, log) s")
  have step: "handle_stop tw msg (r, log) s = (merge_results r d, log1)"
    using handle_stop_merge [of tw msg r log s n] d by simp
  obtain R log2 where R: "foldl (handle_stop tw msg) (zero_results 0, log1) ss = (R, log2)"
    by (cases "foldl (handle_stop tw msg) (zero_results 0, log1) ss")
  have a: "foldl (handle_stop tw msg) (merge_results r d, log1) ss
             = (merge_results (merge_results r d) R, log2)"
    using Cons.IH [of "merge_results r d" log1 0] R by simp
  have b: "foldl (handle_stop tw msg) (d, log1) ss = (merge_results d R, log2)"
    using Cons.IH [of d log1 0] R by simp
  show ?case
    by (simp add: step d a b merge_results_assoc)
qed

text \<open>The pipeline on a list that is split in two: the second part starts from the trace the first part left.\<close>

lemma send_messages_to_stops_append:
  assumes "send_messages_to_stops tw log xs msg = (r1, log1)"
    and "send_messages_to_stops tw log1 ys msg = (r2, log2)"
  shows "send_messages_to_stops tw log (xs @ ys) msg =
           (\<lparr>total_stops = total_stops r1 + total_stops r2,
             messages_sent = messages_sent r1 + messages_sent r2,
             failures = failures r1 + failures r2,
             details = details r1 @ details r2\<rparr>, log2)"
proof -
  let ?f = "handle_stop tw msg"
  define z where "z = zero_results (int (length (xs @ ys)))"
  have x: "foldl ?f (z, log) xs = (merge_results z r1, log1)"
    using assms(1) foldl_handle_stop_merge [of tw msg z log xs "int (length xs)"]
    by (simp add: send_messages_to_stops_def zero_results_def)
  have y: "foldl ?f (merge_results z r1, log1) ys
             = (merge_results (merge_results z r1) r2, log2)"
    using assms(2) foldl_handle_stop_merge [of tw msg "merge_results z r1" log1 ys "int (length ys)"]
    by (simp add: send_messages_to_stops_def zero_results_def)
  have t1: "total_stops r1 = int (length xs)"
    using assms(1) foldl_handle_stop_merge [of tw msg "zero_results (int (length xs))" log xs 0]
    by (auto simp: send_messages_to_stops_def zero_results_def merge_results_def)
  have t2: "total_stops r2 = int (length ys)"
    using assms(2) foldl_handle_stop_merge [of tw msg "zero_results (int (length ys))" log1 ys 0]
    by (auto simp: send_messages_to_stops_def zero_results_def merge_results_def)
  have "send_messages_to_stops tw log (xs @ ys) msg = foldl ?f (foldl ?f (z, log) xs) ys"
    unfolding z_def send_messages_to_stops_def zero_results_def foldl_append ..
  also have "\<dots> = (merge_results (merge_results z r1) r2, log2)"
    by (simp only: x y)
  finally show ?thesis
    by (simp add: z_def merge_results_def zero_results_def t1 t2)
qed

lemma send_messages_to_stops_single:
  "send_messages_to_stops tw log [s] msg = handle_stop tw msg (zero_results 1, log) s"
  by (simp add: send_messages_to_stops_def zero_results_def)


lemma handle_stop_no_phone:
  "falsy (stop_phone s) \<Longrightarrow>
   handle_stop tw msg (r, log) s = (record_failure (no_phone_detail s) r, log)"
  by (simp add: handle_stop_def falsy_def split: option.splits)

lemma handle_stop_sent:
  "stop_phone s = Some pn \<Longrightarrow> pn \<noteq> [] \<Longrightarrow>
   send_message tw log pn msg = (Inr (Success sid st to), log') \<Longrightarrow>
   handle_stop tw msg (r, log) s = (record_sent (sent_detail s pn sid) r, log')"
  by (simp add: handle_stop_def)

lemma handle_stop_failed:
  "stop_phone s = Some pn \<Longrightarrow> pn \<noteq> [] \<Longrightarrow>
   send_message tw log pn msg = (Inr (Failure err to), log') \<Longrightarrow>
   handle_stop tw msg (r, log) s = (record_failure (failed_detail s pn err) r, log')"
  by (simp add: handle_stop_def)

lemma handle_stop_raised:
  "stop_phone s = Some pn \<Longrightarrow> pn \<noteq> [] \<Longrightarrow>
   send_message tw log pn msg = (Inl (Exception err), log') \<Longrightarrow>
   handle_stop tw msg (r, log) s = (record_failure (failed_detail s pn err) r, log')"
  by (simp add: handle_stop_def)

text \<open>One turn of the loop appends one entry for its stop and counts it once.\<close>

lemma handle_stop_step:
  assumes "handle_stop tw msg (r, log) s = (r', log')"
  shows "\<exists>d. details r' = details r @ [d] \<and> d_stop_id d = stop_id s
           \<and> total_stops r' = total_stops r
           \<and> messages_sent r' + failures r' = messages_sent r + failures r + 1"
  using assms
  by (auto simp: handle_stop_def record_sent_def record_failure_def no_phone_detail_def
      sent_detail_def failed_detail_def
      split: option.splits if_splits prod.splits sum.splits sms_result.splits exn.splits)

lemma foldl_handle_stop_invariant:
  assumes "foldl (handle_stop tw msg) (r, log) ss = (r', log')"
  shows "map d_stop_id (details r') = map d_stop_id (details r) @ map stop_id ss
       \<and> total_stops r' = total_stops r
       \<and> messages_sent r' + failures r' = messages_sent r + failures r + int (length ss)"
  using assms
proof (induction ss arbitrary: r log)
  case Nil
  then show ?case by simp
next
  case (Cons s ss)
  obtain r1 log1 where h: "handle_stop tw msg (r, log) s = (r1, log1)"
    by (cases "handle_stop tw msg (r, log) s")
  from handle_stop_step [OF h] obtain d where
    d: "details r1 = details r @ [d]" "d_stop_id d = stop_id s"
       "total_stops r1 = total_stops r"
       "messages_sent r1 + failures r1 = messages_sent r + failures r + 1"
    by blast
  from Cons.prems h have "foldl (handle_stop tw msg) (r1, log1) ss = (r', log')"
    by simp
  from Cons.IH [OF this] d show ?case
    by simp
qed


lemma send_messages_to_stops_cons:
  assumes "handle_stop tw msg (zero_results 1, log) s = (r1, log1)"
    and "send_messages_to_stops tw log1 ys msg = (r2, log2)"
  shows "send_messages_to_stops tw log (s # ys) msg =
           (\<lparr>total_stops = 1 + total_stops r2,
             messages_sent = messages_sent r1 + messages_sent r2,
             failures = failures r1 + failures r2,
             details = details r1 @ details r2\<rparr>, log2)"
proof -
  have "send_messages_to_stops tw log [s] msg = (r1, log1)"
    using assms(1) by (simp add: send_messages_to_stops_single)
  from send_messages_to_stops_append [OF this assms(2)] handle_stop_step [OF assms(1)]
  show ?thesis by (auto simp: zero_results_def)
qed

lemma send_messages_to_stops_nil:
  "send_messages_to_stops tw log [] msg = (zero_results 0, log)"
  by (simp add: send_messages_to_stops_def zero_results_def)

lemma handle_stop_entry:
  assumes "handle_stop tw msg (r, log) s = (r', log')"
  shows "\<exists>d. details r' = details r @ [d]
           \<and> d_phone d = (if falsy (stop_phone s) then None else map_option last4 (stop_phone s))
           \<and> (d_status d = ''sent'' \<and> messages_sent r' = messages_sent r + 1
                 \<and> failures r' = failures r
               \<or> d_status d = ''failed'' \<and> messages_sent r' = messages_sent r
                 \<and> failures r' = failures r + 1)"
  using assms
  by (auto simp: handle_stop_def record_sent_def record_failure_def no_phone_detail_def
      sent_detail_def failed_detail_def falsy_def
      split: option.splits if_splits prod.splits sum.splits sms_result.splits exn.splits)

lemma foldl_handle_stop_entries:
  assumes "foldl (handle_stop tw msg) (r, log) ss = (r', log')"
  shows "\<exists>ds. details r' = details r @ ds
           \<and> map d_phone ds
               = map (\<lambda>s. if falsy (stop_phone s) then None
                          else map_option last4 (stop_phone s)) ss
           \<and> messages_sent r'
               = messages_sent r + int (length (filter (\<lambda>d. d_status d = ''sent'') ds))
           \<and> failures r'
               = failures r + int (length (filter (\<lambda>d. d_status d = ''failed'') ds))"
  using assms
proof (induction ss arbitrary: r log)
  case Nil
  then show ?case by simp
next
  case (Cons s ss)
  obtain r1 log1 where h: "handle_stop tw msg (r, log) s = (r1, log1)"
    by (cases "handle_stop tw msg (r, log) s")
  from handle_stop_entry [OF h] obtain d where
    d: "details r1 = details r @ [d]"
       "d_phone d = (if falsy (stop_phone s) then None else map_option last4 (stop_phone s))"
       "d_status d = ''sent'' \<and> messages_sent r1 = messages_sent r + 1
          \<and> failures r1 = failures r
        \<or> d_status d = ''failed'' \<and> messages_sent r1 = messages_sent r
          \<and> failures r1 = failures r + 1"
    by blast
  from Cons.prems h have "foldl (handle_stop tw msg) (r1, log1) ss = (r', log')"
    by simp
  from Cons.IH [OF this] obtain ds where
    ds: "details r' = details r1 @ ds"
        "map d_phone ds
           = map (\<lambda>s. if falsy (stop_phone s) then None
                      else map_option last4 (stop_phone s)) ss"
        "messages_sent r'
           = messages_sent r1 + int (length (filter (\<lambda>d. d_status d = ''sent'') ds))"
        "failures r'
           = failures r1 + int (length (filter (\<lambda>d. d_status d = ''failed'') ds))"
    by blast
  have "details r' = details r @ (d # ds)"
    by (simp add: ds(1) d(1))
  moreover have "map d_phone (d # ds)
       = map (\<lambda>s. if falsy (stop_phone s) then None
                  else map_option last4 (stop_phone s)) (s # ss)"
    using d(2) ds(2) by simp
  moreover have "messages_sent r'
       = messages_sent r + int (length (filter (\<lambda>d. d_status d = ''sent'') (d # ds)))"
    using d(3) ds(3) by auto
  moreover have "failures r'
       = failures r + int (length (filter (\<lambda>d. d_status d = ''failed'') (d # ds)))"
    using d(3) ds(4) by auto
  ultimately show ?case
    by blast
qed

lemma send_messages_to_stops_counts:
  "messages_sent (fst (send_messages_to_stops tw log ss msg))
     = int (length (filter (\<lambda>d. d_status d = ''sent'')
                      (details (fst (send_messages_to_stops tw log ss msg)))))
   \<and> failures (fst (send_messages_to_stops tw log ss msg))
     = int (length (filter (\<lambda>d. d_status d = ''failed'')
                      (details (fst (send_messages_to_stops tw log ss msg)))))
   \<and> map d_phone (details (fst (send_messages_to_stops tw log ss msg)))
     = map (\<lambda>s. if falsy (stop_phone s) then None
                else map_option last4 (stop_phone s)) ss"
proof -
  obtain r l where run: "send_messages_to_stops tw log ss msg = (r, l)"
    by (cases "send_messages_to_stops tw log ss msg")
  then have "foldl (handle_stop tw msg) (zero_results (int (length ss)), log) ss = (r, l)"
    by (simp add: send_messages_to_stops_def zero_results_def)
  from foldl_handle_stop_entries [OF this] show ?thesis
    by (auto simp: run zero_results_def)
qed

text \<open>\<open>total_stops\<close> is the number of stops handed to the loop, that is, of incomplete stops.\<close>

lemma send_messages_to_stops_total:
  "total_stops (fst (send_messages_to_stops tw log ss msg)) = int (length ss)"
proof -
  obtain r l where "send_messages_to_stops tw log ss msg = (r, l)"
    by (cases "send_messages_to_stops tw log ss msg")
  moreover from this
  have "foldl (handle_stop tw msg) (zero_results (int (length ss)), log) ss = (r, l)"
    by (simp add: send_messages_to_stops_def zero_results_def)
  from foldl_handle_stop_invariant [OF this] have "total_stops r = int (length ss)"
    by (simp add: zero_results_def)
  ultimately show ?thesis
    by simp
qed

lemma send_message_trace:
  "snd (send_message tw log pn msg) =
     log @ [FormatPhoneNumber pn, MessagesCreate msg (from_number tw) (format_phone_number pn)]"
  by (simp add: send_message_def Let_def split: provider_reply.splits)

lemma handle_stop_trace:
  "snd (handle_stop tw msg (r, log) s) = log @ stop_events tw msg s"
proof (cases "stop_phone s")
  case None
  then show ?thesis by (simp add: handle_stop_def stop_events_def)
next
  case (Some pn)
  show ?thesis
  proof (cases "pn = []")
    case True
    with Some show ?thesis by (simp add: handle_stop_def stop_events_def)
  next
    case False
    have "snd (handle_stop tw msg (r, log) s) = snd (send_message tw log pn msg)"
      using Some False
      by (simp add: handle_stop_def split: prod.splits sum.splits sms_result.splits exn.splits)
    then show ?thesis
      using Some False by (simp add: send_message_trace stop_events_def)
  qed
qed

lemma foldl_handle_stop_trace:
  "snd (foldl (handle_stop tw msg) (r, log) ss) = log @ concat (map (stop_events tw msg) ss)"
proof (induction ss arbitrary: r log)
  case Nil
  show ?case by simp
next
  case (Cons s ss)
  obtain r1 log1 where h: "handle_stop tw msg (r, log) s = (r1, log1)"
    by (cases "handle_stop tw msg (r, log) s")
  then have "log1 = log @ stop_events tw msg s"
    using handle_stop_trace [of tw msg r log s] by simp
  then show ?case
    using Cons.IH [of r1 log1] h by simp
qed

text \<open>
  The trace of a run does not depend on what the provider answers: every stop with a
  phone contributes one normalisation and one request, in the stops' order, and the
  request carries the message as it was given.
\<close>

lemma send_messages_to_stops_trace:
  "snd (send_messages_to_stops tw log ss msg) = log @ concat (map (stop_events tw msg) ss)"
  by (simp add: send_messages_to_stops_def foldl_handle_stop_trace)

text \<open>
  A failure that is not a \<^verbatim>\<open>TwilioException\<close> leaves \<^verbatim>\<open>send_message\<close> as an exception; the
  web pipeline catches it and records the stop as failed all the same.
\<close>

lemma send_message_other_exception:
  "messages_create tw (log @ [FormatPhoneNumber pn]) msg (from_number tw)
     (format_phone_number pn) = RaisesException err \<Longrightarrow>
   fst (send_message tw log pn msg) = Inl (Exception err)"
  by (simp add: send_message_def Let_def)

section \<open>Properties of the command-line loop\<close>

text \<open>
  The command-line loop skips a stop without a phone: nothing is sent and nothing is
  recorded for it.
\<close>

lemma process_stops_no_phone:
  "phone_number stop = [] \<Longrightarrow>
   process_stops tw templates dry_run (stop # rest) (res, log)
     = process_stops tw templates dry_run rest (res, log)"
  by simp

text \<open>
  In the command-line loop a provider failure is one more result of the list and the
  loop goes on; an exception that leaves \<^verbatim>\<open>send_message\<close> ends the loop.
\<close>

lemma process_stops_provider_failure:
  assumes "phone_number stop \<noteq> []"
    and "get_status_message templates (delivery_status stop) = Inr sm"
    and "render templates ''default'' (customer_name stop)
           (case formatted (rs_address stop) of None \<Rightarrow> [] | Some a \<Rightarrow> a) sm = Inr body"
    and "send_message tw log (phone_number stop) body = (Inr (Failure err to), log')"
  shows "process_stops tw templates False (stop # rest) (res, log)
           = process_stops tw templates False rest (res @ [Failure err to], log')"
  using assms by simp

lemma process_stops_exception:
  assumes "phone_number stop \<noteq> []"
    and "get_status_message templates (delivery_status stop) = Inr sm"
    and "render templates ''default'' (customer_name stop)
           (case formatted (rs_address stop) of None \<Rightarrow> [] | Some a \<Rightarrow> a) sm = Inr body"
    and "send_message tw log (phone_number stop) body = (Inl e, log')"
  shows "process_stops tw templates False (stop # rest) (res, log) = (Inl e, log')"
  using assms by simp

text \<open>
  Wherever it stands among a route's incomplete stops, a stop without a phone leaves the
  loop's results and trace as they are without it.
\<close>

lemma process_stops_skips_no_phone:
  assumes "phone_number stop = []"
  shows "process_stops tw templates dry_run (pre @ stop # post) (res, log)
           = process_stops tw templates dry_run (pre @ post) (res, log)"
proof -
  have dry: "process_stops tw templates True (pre @ stop # post) (res, log)
               = process_stops tw templates True (pre @ post) (res, log)" for res log
    using assms by (induction pre arbitrary: res log) (simp_all split: sum.splits)
  have wet: "process_stops tw templates False (pre @ stop # post) (res, log)
               = process_stops tw templates False (pre @ post) (res, log)" for res log
    using assms
    by (induction pre arbitrary: res log) (simp_all split: sum.splits prod.splits)
  show ?thesis
    by (cases dry_run) (simp_all add: dry wet)
qed

lemma process_routes_skips_no_phone:
  assumes "phone_number stop = []" and "incomplete_stops R = pre @ stop # post"
  shows "process_routes tw templates dry_run (R # routes) (res, log) =
           (case process_stops tw templates dry_run (pre @ post) (res, log) of
              (Inl e, log') \<Rightarrow> (Inl e, log')
            | (Inr res', log') \<Rightarrow> process_routes tw templates dry_run routes (res', log'))"
  by (simp add: assms(2) process_stops_skips_no_phone [OF assms(1)])

section \<open>Properties of the pipeline\<close>

text \<open>
  C2. Whatever the list of incomplete stops one invocation processes, the aggregated
  result has exactly one entry per stop, the entries carry the stops' identifiers in the
  stops' order, \<open>messages_sent\<close> and \<open>failures\<close> count the entries marked sent and failed, and
  together they equal the number of stops. In particular, for three stops where A has no
  phone, the send for B succeeds and the send for C fails at the provider (with
  \<^verbatim>\<open>InvalidNumber\<close>, or any other error text), the result has \<open>messages_sent = 1\<close>,
  \<open>failures = 2\<close> and exactly three entries, for A, B and C in that order, each with its
  reason.
\<close>

theorem one_outcome_per_stop:
  "map d_stop_id (details (fst (send_messages_to_stops tw log0 stops msg0)))
     = map stop_id stops
   \<and> length (details (fst (send_messages_to_stops tw log0 stops msg0))) = length stops
   \<and> messages_sent (fst (send_messages_to_stops tw log0 stops msg0))
       + failures (fst (send_messages_to_stops tw log0 stops msg0)) = int (length stops)
   \<and> messages_sent (fst (send_messages_to_stops tw log0 stops msg0))
       = int (length (filter (\<lambda>d. d_status d = ''sent'')
                        (details (fst (send_messages_to_stops tw log0 stops msg0)))))
   \<and> failures (fst (send_messages_to_stops tw log0 stops msg0))
       = int (length (filter (\<lambda>d. d_status d = ''failed'')
                        (details (fst (send_messages_to_stops tw log0 stops msg0)))))
   \<and> (falsy (stop_phone A)
        \<and> stop_phone B = Some pb \<and> pb \<noteq> []
        \<and> send_message tw log pb msg = (Inr (Success sid st to_b), log_b)
        \<and> stop_phone C = Some pc \<and> pc \<noteq> []
        \<and> send_message tw log_b pc msg = (Inr (Failure err to_c), log_c)
      \<longrightarrow> send_messages_to_stops tw log [A, B, C] msg =
           (\<lparr>total_stops = 3, messages_sent = 1, failures = 2,
             details =
               [\<lparr>d_stop_id = stop_id A, d_status = ''failed'',
                 d_error = Some ''No phone number'', d_phone = None, d_message_sid = None\<rparr>,
                \<lparr>d_stop_id = stop_id B, d_status = ''sent'', d_error = None,
                 d_phone = Some (last4 pb), d_message_sid = Some sid\<rparr>,
                \<lparr>d_stop_id = stop_id C, d_status = ''failed'', d_error = Some err,
                 d_phone = Some (last4 pc), d_message_sid = None\<rparr>]\<rparr>, log_c))"
proof -
  obtain r l where run: "send_messages_to_stops tw log0 stops msg0 = (r, l)"
    by (cases "send_messages_to_stops tw log0 stops msg0")
  then have "foldl (handle_stop tw msg0) (zero_results (int (length stops)), log0) stops = (r, l)"
    by (simp add: send_messages_to_stops_def zero_results_def)
  from foldl_handle_stop_invariant [OF this]
  have ids: "map d_stop_id (details r) = map stop_id stops"
    and sum: "messages_sent r + failures r = int (length stops)"
    by (simp_all add: zero_results_def)
  from ids have len: "length (details r) = length stops"
    using length_map by metis
  have example: "send_messages_to_stops tw log [A, B, C] msg =
           (\<lparr>total_stops = 3, messages_sent = 1, failures = 2,
             details = [no_phone_detail A, sent_detail B pb sid, failed_detail C pc err]\<rparr>,
            log_c)"
    if A: "falsy (stop_phone A)"
      and B: "stop_phone B = Some pb" "pb \<noteq> []"
        "send_message tw log pb msg = (Inr (Success sid st to_b), log_b)"
      and C: "stop_phone C = Some pc" "pc \<noteq> []"
        "send_message tw log_b pc msg = (Inr (Failure err to_c), log_c)"
  proof -
    have c: "send_messages_to_stops tw log_b [C] msg
               = (record_failure (failed_detail C pc err) (zero_results 1), log_c)"
      using handle_stop_failed [OF C] by (simp add: send_messages_to_stops_single)
    have b: "handle_stop tw msg (zero_results 1, log) B
               = (record_sent (sent_detail B pb sid) (zero_results 1), log_b)"
      by (rule handle_stop_sent [OF B])
    have a: "handle_stop tw msg (zero_results 1, log) A
               = (record_failure (no_phone_detail A) (zero_results 1), log)"
      by (rule handle_stop_no_phone [OF A])
    note bc = send_messages_to_stops_cons [OF b c]
    from send_messages_to_stops_cons [OF a bc] show ?thesis
      by (simp add: record_sent_def record_failure_def zero_results_def)
  qed
  show ?thesis
    using ids len sum send_messages_to_stops_counts [of tw log0 stops msg0] example
    by (simp add: run no_phone_detail_def sent_detail_def failed_detail_def)
qed

lemma example_send_B:
  "send_message example_twilio [] ''(555) 123-0002'' ''Hi'' =
     (Inr (Success ''SM0001'' ''queued'' ''+15551230002''),
      [FormatPhoneNumber ''(555) 123-0002'',
       MessagesCreate ''Hi'' ''+15550000000'' ''+15551230002''])"
  by (simp add: send_message_def Let_def example_twilio_def format_phone_number_def isdigit_def)

lemma example_send_C:
  "send_message example_twilio
     [FormatPhoneNumber ''(555) 123-0002'',
      MessagesCreate ''Hi'' ''+15550000000'' ''+15551230002''] ''12'' ''Hi'' =
     (Inr (Failure ''InvalidNumber'' ''12''),
      [FormatPhoneNumber ''(555) 123-0002'',
       MessagesCreate ''Hi'' ''+15550000000'' ''+15551230002'',
       FormatPhoneNumber ''12'',
       MessagesCreate ''Hi'' ''+15550000000'' ''+12''])"
  by (simp add: send_message_def Let_def example_twilio_def format_phone_number_def isdigit_def)

theorem one_outcome_per_stop_witness:
  "send_messages_to_stops example_twilio [] [stop_A, stop_B, stop_C] ''Hi'' =
     (\<lparr>total_stops = 3, messages_sent = 1, failures = 2,
       details =
         [\<lparr>d_stop_id = ''A'', d_status = ''failed'',
           d_error = Some ''No phone number'', d_phone = None, d_message_sid = None\<rparr>,
          \<lparr>d_stop_id = ''B'', d_status = ''sent'', d_error = None,
           d_phone = Some ''0002'', d_message_sid = Some ''SM0001''\<rparr>,
          \<lparr>d_stop_id = ''C'', d_status = ''failed'', d_error = Some ''InvalidNumber'',
           d_phone = Some ''12'', d_message_sid = None\<rparr>]\<rparr>,
      [FormatPhoneNumber ''(555) 123-0002'',
       MessagesCreate ''Hi'' ''+15550000000'' ''+15551230002'',
       FormatPhoneNumber ''12'',
       MessagesCreate ''Hi'' ''+15550000000'' ''+12''])"
proof -
  have a: "falsy (stop_phone stop_A)"
    by (simp add: falsy_def stop_phone_def stop_A_def example_stop_def)
  have b: "stop_phone stop_B = Some ''(555) 123-0002''" "''(555) 123-0002'' \<noteq> []"
    by (simp_all add: stop_phone_def stop_B_def example_stop_def)
  have c: "stop_phone stop_C = Some ''12''" "''12'' \<noteq> []"
    by (simp_all add: stop_phone_def stop_C_def example_stop_def)
  have i: "stop_id stop_A = ''A''" "stop_id stop_B = ''B''" "stop_id stop_C = ''C''"
    by (simp_all add: stop_A_def stop_B_def stop_C_def example_stop_def)
  note t = one_outcome_per_stop
    [where tw = example_twilio and A = stop_A and B = stop_B and C = stop_C
       and pb = "''(555) 123-0002''" and pc = "''12''" and log = "[]" and msg = "''Hi''"
       and sid = "''SM0001''" and st = "''queued''" and to_b = "''+15551230002''"
       and err = "''InvalidNumber''" and to_c = "''12''"
       and log_b = "[FormatPhoneNumber ''(555) 123-0002'',
                     MessagesCreate ''Hi'' ''+15550000000'' ''+15551230002'']"
       and log_c = "[FormatPhoneNumber ''(555) 123-0002'',
                     MessagesCreate ''Hi'' ''+15550000000'' ''+15551230002'',
                     FormatPhoneNumber ''12'',
                     MessagesCreate ''Hi'' ''+15550000000'' ''+12'']"
       and stops = "[]" and log0 = "[]" and msg0 = "''Hi''"]
  from t a b c example_send_B example_send_C show ?thesis
    by (simp add: i last4_def)
qed

lemma example_run_B:
  "send_messages_to_stops example_twilio [] [stop_B] ''Hi'' =
     (\<lparr>total_stops = 1, messages_sent = 1, failures = 0,
       details = [\<lparr>d_stop_id = ''B'', d_status = ''sent'', d_error = None,
                   d_phone = Some ''0002'', d_message_sid = Some ''SM0001''\<rparr>]\<rparr>,
      [FormatPhoneNumber ''(555) 123-0002'',
       MessagesCreate ''Hi'' ''+15550000000'' ''+15551230002''])"
  by (simp add: send_messages_to_stops_def handle_stop_def send_message_def Let_def
      example_twilio_def format_phone_number_def isdigit_def stop_phone_def stop_B_def
      example_stop_def record_sent_def sent_detail_def last4_def)

lemma example_run_C_after_B:
  "send_messages_to_stops example_twilio
     [FormatPhoneNumber ''(555) 123-0002'',
      MessagesCreate ''Hi'' ''+15550000000'' ''+15551230002''] [stop_C] ''Hi'' =
     (\<lparr>total_stops = 1, messages_sent = 0, failures = 1,
       details = [\<lparr>d_stop_id = ''C'', d_status = ''failed'', d_error = Some ''InvalidNumber'',
                   d_phone = Some ''12'', d_message_sid = None\<rparr>]\<rparr>,
      [FormatPhoneNumber ''(555) 123-0002'',
       MessagesCreate ''Hi'' ''+15550000000'' ''+15551230002'',
       FormatPhoneNumber ''12'',
       MessagesCreate ''Hi'' ''+15550000000'' ''+12''])"
  by (simp add: send_messages_to_stops_def handle_stop_def send_message_def Let_def
      example_twilio_def format_phone_number_def isdigit_def stop_phone_def stop_C_def
      example_stop_def record_failure_def failed_detail_def last4_def)

lemma example_run_B_after_C:
  "send_messages_to_stops example_twilio
     ([FormatPhoneNumber ''(555) 123-0002'',
       MessagesCreate ''Hi'' ''+15550000000'' ''+15551230002'']
      @ [FormatPhoneNumber ''12'',
         MessagesCreate ''Hi'' (from_number example_twilio) (format_phone_number ''12'')])
     [stop_B] ''Hi'' =
     (\<lparr>total_stops = 1, messages_sent = 1, failures = 0,
       details = [\<lparr>d_stop_id = ''B'', d_status = ''sent'', d_error = None,
                   d_phone = Some ''0002'', d_message_sid = Some ''SM0001''\<rparr>]\<rparr>,
      [FormatPhoneNumber ''(555) 123-0002'',
       MessagesCreate ''Hi'' ''+15550000000'' ''+15551230002'',
       FormatPhoneNumber ''12'',
       MessagesCreate ''Hi'' ''+15550000000'' ''+12'',
       FormatPhoneNumber ''(555) 123-0002'',
       MessagesCreate ''Hi'' ''+15550000000'' ''+15551230002''])"
  by (simp add: send_messages_to_stops_def handle_stop_def send_message_def Let_def
      example_twilio_def format_phone_number_def isdigit_def stop_phone_def stop_B_def
      example_stop_def record_sent_def sent_detail_def last4_def)

text \<open>
  C3, as the code has it. A send that fails at the provider is recorded as one failed
  entry for its stop and never ends the pipeline, and the stops after it are processed as
  a run of their own would process them, starting from the trace reached. The send
  operation itself returns a failure result only when \<^verbatim>\<open>client.messages.create\<close> raises a
  \<^verbatim>\<open>TwilioException\<close>; when it raises anything else, \<^verbatim>\<open>send_message\<close> raises and the loop's
  \<^verbatim>\<open>except Exception\<close> records the failure.
\<close>

theorem provider_failure_is_local:
  assumes "stop_phone s = Some pn" and "pn \<noteq> []"
    and "send_messages_to_stops tw log xs msg = (r1, log1)"
    and "messages_create tw (log1 @ [FormatPhoneNumber pn]) msg (from_number tw)
           (format_phone_number pn) = reply"
    and "reply = RaisesTwilioException err \<or> reply = RaisesException err"
    and "send_messages_to_stops tw
           (log1 @ [FormatPhoneNumber pn,
                    MessagesCreate msg (from_number tw) (format_phone_number pn)]) ys msg
           = (r2, log2)"
  shows "send_message tw log1 pn msg =
           ((if reply = RaisesTwilioException err then Inr (Failure err pn)
             else Inl (Exception err)),
            log1 @ [FormatPhoneNumber pn,
                    MessagesCreate msg (from_number tw) (format_phone_number pn)])
       \<and> send_messages_to_stops tw log (xs @ s # ys) msg =
           (\<lparr>total_stops = total_stops r1 + 1 + total_stops r2,
             messages_sent = messages_sent r1 + messages_sent r2,
             failures = failures r1 + 1 + failures r2,
             details = details r1
               @ \<lparr>d_stop_id = stop_id s, d_status = ''failed'', d_error = Some err,
                  d_phone = Some (last4 pn), d_message_sid = None\<rparr>
               # details r2\<rparr>, log2)"
proof -
  let ?log' = "log1 @ [FormatPhoneNumber pn,
                       MessagesCreate msg (from_number tw) (format_phone_number pn)]"
  have send: "send_message tw log1 pn msg =
                ((if reply = RaisesTwilioException err then Inr (Failure err pn)
                  else Inl (Exception err)), ?log')"
    using assms(4,5) by (auto simp: send_message_def Let_def)
  have "handle_stop tw msg (zero_results 1, log1) s
          = (record_failure (failed_detail s pn err) (zero_results 1), ?log')"
  proof (cases "reply = RaisesTwilioException err")
    case True
    with send have "send_message tw log1 pn msg = (Inr (Failure err pn), ?log')"
      by simp
    from handle_stop_failed [OF assms(1,2) this] show ?thesis .
  next
    case False
    with send have "send_message tw log1 pn msg = (Inl (Exception err), ?log')"
      by simp
    from handle_stop_raised [OF assms(1,2) this] show ?thesis .
  qed
  from send_messages_to_stops_cons [OF this assms(6)]
  have "send_messages_to_stops tw log1 (s # ys) msg =
          (\<lparr>total_stops = 1 + total_stops r2, messages_sent = messages_sent r2,
            failures = 1 + failures r2,
            details = failed_detail s pn err # details r2\<rparr>, log2)"
    by (simp add: record_failure_def zero_results_def)
  from send_messages_to_stops_append [OF assms(3) this] send
  show ?thesis
    by (simp add: failed_detail_def)
qed

lemma flaky_run_B:
  "send_messages_to_stops flaky_twilio [] [stop_B] ''Hi'' =
     (\<lparr>total_stops = 1, messages_sent = 1, failures = 0,
       details = [\<lparr>d_stop_id = ''B'', d_status = ''sent'', d_error = None,
                   d_phone = Some ''0002'', d_message_sid = Some ''SM0001''\<rparr>]\<rparr>,
      [FormatPhoneNumber ''(555) 123-0002'',
       MessagesCreate ''Hi'' ''+15550000000'' ''+15551230002''])"
  by (simp add: send_messages_to_stops_def handle_stop_def send_message_def Let_def
      flaky_twilio_def format_phone_number_def isdigit_def stop_phone_def stop_B_def
      example_stop_def record_sent_def sent_detail_def last4_def)

lemma flaky_run_B_after_C:
  "send_messages_to_stops flaky_twilio
     ([FormatPhoneNumber ''(555) 123-0002'',
       MessagesCreate ''Hi'' ''+15550000000'' ''+15551230002'']
      @ [FormatPhoneNumber ''12'',
         MessagesCreate ''Hi'' (from_number flaky_twilio) (format_phone_number ''12'')])
     [stop_B] ''Hi'' =
     (\<lparr>total_stops = 1, messages_sent = 1, failures = 0,
       details = [\<lparr>d_stop_id = ''B'', d_status = ''sent'', d_error = None,
                   d_phone = Some ''0002'', d_message_sid = Some ''SM0001''\<rparr>]\<rparr>,
      [FormatPhoneNumber ''(555) 123-0002'',
       MessagesCreate ''Hi'' ''+15550000000'' ''+15551230002'',
       FormatPhoneNumber ''12'',
       MessagesCreate ''Hi'' ''+15550000000'' ''+12'',
       FormatPhoneNumber ''(555) 123-0002'',
       MessagesCreate ''Hi'' ''+15550000000'' ''+15551230002''])"
  by (simp add: send_messages_to_stops_def handle_stop_def send_message_def Let_def
      flaky_twilio_def format_phone_number_def isdigit_def stop_phone_def stop_B_def
      example_stop_def record_sent_def sent_detail_def last4_def)

theorem provider_failure_is_local_witness:
  "send_messages_to_stops example_twilio [] [stop_B, stop_C, stop_B] ''Hi'' =
     (\<lparr>total_stops = 3, messages_sent = 2, failures = 1,
       details =
         [\<lparr>d_stop_id = ''B'', d_status = ''sent'', d_error = None,
           d_phone = Some ''0002'', d_message_sid = Some ''SM0001''\<rparr>,
          \<lparr>d_stop_id = ''C'', d_status = ''failed'', d_error = Some ''InvalidNumber'',
           d_phone = Some ''12'', d_message_sid = None\<rparr>,
          \<lparr>d_stop_id = ''B'', d_status = ''sent'', d_error = None,
           d_phone = Some ''0002'', d_message_sid = Some ''SM0001''\<rparr>]\<rparr>,
      [FormatPhoneNumber ''(555) 123-0002'',
       MessagesCreate ''Hi'' ''+15550000000'' ''+15551230002'',
       FormatPhoneNumber ''12'',
       MessagesCreate ''Hi'' ''+15550000000'' ''+12'',
       FormatPhoneNumber ''(555) 123-0002'',
       MessagesCreate ''Hi'' ''+15550000000'' ''+15551230002''])
   \<and> send_messages_to_stops flaky_twilio [] [stop_B, stop_C, stop_B] ''Hi'' =
     (\<lparr>total_stops = 3, messages_sent = 2, failures = 1,
       details =
         [\<lparr>d_stop_id = ''B'', d_status = ''sent'', d_error = None,
           d_phone = Some ''0002'', d_message_sid = Some ''SM0001''\<rparr>,
          \<lparr>d_stop_id = ''C'', d_status = ''failed'',
           d_error = Some ''Connection reset by peer'',
           d_phone = Some ''12'', d_message_sid = None\<rparr>,
          \<lparr>d_stop_id = ''B'', d_status = ''sent'', d_error = None,
           d_phone = Some ''0002'', d_message_sid = Some ''SM0001''\<rparr>]\<rparr>,
      [FormatPhoneNumber ''(555) 123-0002'',
       MessagesCreate ''Hi'' ''+15550000000'' ''+15551230002'',
       FormatPhoneNumber ''12'',
       MessagesCreate ''Hi'' ''+15550000000'' ''+12'',
       FormatPhoneNumber ''(555) 123-0002'',
       MessagesCreate ''Hi'' ''+15550000000'' ''+15551230002''])"
proof -
  have c: "stop_phone stop_C = Some ''12''" "''12'' \<noteq> []"
    by (simp_all add: stop_phone_def stop_C_def example_stop_def)
  have i: "stop_id stop_C = ''C''"
    by (simp add: stop_C_def example_stop_def)
  have p: "messages_create example_twilio
             ([FormatPhoneNumber ''(555) 123-0002'',
               MessagesCreate ''Hi'' ''+15550000000'' ''+15551230002'']
              @ [FormatPhoneNumber ''12'']) ''Hi''
             (from_number example_twilio) (format_phone_number ''12'')
           = RaisesTwilioException ''InvalidNumber''"
    by (simp add: example_twilio_def format_phone_number_def isdigit_def)
  have q: "messages_create flaky_twilio
             ([FormatPhoneNumber ''(555) 123-0002'',
               MessagesCreate ''Hi'' ''+15550000000'' ''+15551230002'']
              @ [FormatPhoneNumber ''12'']) ''Hi''
             (from_number flaky_twilio) (format_phone_number ''12'')
           = RaisesException ''Connection reset by peer''"
    by (simp add: flaky_twilio_def format_phone_number_def isdigit_def)
  have pd: "RaisesTwilioException ''InvalidNumber'' = RaisesTwilioException ''InvalidNumber''
            \<or> RaisesTwilioException ''InvalidNumber'' = RaisesException ''InvalidNumber''"
    by simp
  have qd: "RaisesException ''Connection reset by peer''
              = RaisesTwilioException ''Connection reset by peer''
            \<or> RaisesException ''Connection reset by peer''
              = RaisesException ''Connection reset by peer''"
    by simp
  from provider_failure_is_local [OF c example_run_B p pd example_run_B_after_C, THEN conjunct2]
  have "send_messages_to_stops example_twilio [] [stop_B, stop_C, stop_B] ''Hi'' =
     (\<lparr>total_stops = 3, messages_sent = 2, failures = 1,
       details =
         [\<lparr>d_stop_id = ''B'', d_status = ''sent'', d_error = None,
           d_phone = Some ''0002'', d_message_sid = Some ''SM0001''\<rparr>,
          \<lparr>d_stop_id = ''C'', d_status = ''failed'', d_error = Some ''InvalidNumber'',
           d_phone = Some ''12'', d_message_sid = None\<rparr>,
          \<lparr>d_stop_id = ''B'', d_status = ''sent'', d_error = None,
           d_phone = Some ''0002'', d_message_sid = Some ''SM0001''\<rparr>]\<rparr>,
      [FormatPhoneNumber ''(555) 123-0002'',
       MessagesCreate ''Hi'' ''+15550000000'' ''+15551230002'',
       FormatPhoneNumber ''12'',
       MessagesCreate ''Hi'' ''+15550000000'' ''+12'',
       FormatPhoneNumber ''(555) 123-0002'',
       MessagesCreate ''Hi'' ''+15550000000'' ''+15551230002''])"
    by (simp add: i last4_def)
  moreover
  from provider_failure_is_local [OF c flaky_run_B q qd flaky_run_B_after_C, THEN conjunct2]
  have "send_messages_to_stops flaky_twilio [] [stop_B, stop_C, stop_B] ''Hi'' =
     (\<lparr>total_stops = 3, messages_sent = 2, failures = 1,
       details =
         [\<lparr>d_stop_id = ''B'', d_status = ''sent'', d_error = None,
           d_phone = Some ''0002'', d_message_sid = Some ''SM0001''\<rparr>,
          \<lparr>d_stop_id = ''C'', d_status = ''failed'',
           d_error = Some ''Connection reset by peer'',
           d_phone = Some ''12'', d_message_sid = None\<rparr>,
          \<lparr>d_stop_id = ''B'', d_status = ''sent'', d_error = None,
           d_phone = Some ''0002'', d_message_sid = Some ''SM0001''\<rparr>]\<rparr>,
      [FormatPhoneNumber ''(555) 123-0002'',
       MessagesCreate ''Hi'' ''+15550000000'' ''+15551230002'',
       FormatPhoneNumber ''12'',
       MessagesCreate ''Hi'' ''+15550000000'' ''+12'',
       FormatPhoneNumber ''(555) 123-0002'',
       MessagesCreate ''Hi'' ''+15550000000'' ''+15551230002''])"
    by (simp add: i last4_def)
  ultimately show ?thesis
    by (rule conjI)
qed

text \<open>
  With a provider call that breaks with another exception, \<^verbatim>\<open>send_message\<close> raises: it does
  not return a failure result.
\<close>

theorem send_message_throws_counterexample:
  "send_message flaky_twilio [] ''12'' ''Hi'' =
     (Inl (Exception ''Connection reset by peer''),
      [FormatPhoneNumber ''12'', MessagesCreate ''Hi'' ''+15550000000'' ''+12''])
   \<and> fst (send_message flaky_twilio [] ''12'' ''Hi'')
       \<noteq> Inr (Failure ''Connection reset by peer'' ''12'')"
  by (simp add: send_message_def Let_def flaky_twilio_def format_phone_number_def isdigit_def)


text \<open>
  C4, as the code has it. For a stop whose contact phone is absent (missing, \<^verbatim>\<open>None\<close> or
  empty) neither pipeline calls the normaliser or the provider. The web pipeline leaves
  the trace as it was in the turn of that stop, the whole trace is the one of the run
  without that stop, and the stop is recorded as a failed entry with the reason
  \<^verbatim>\<open>No phone number\<close> and no phone, counted in \<open>failures\<close>. The command-line loop of
  \<^verbatim>\<open>process_routes\<close> skips the stop: its results and its trace are those of the run without
  that stop, so nothing is recorded for it.
\<close>

theorem no_phone_stop_recorded_not_dispatched:
  assumes "falsy (stop_phone s)"
    and "send_messages_to_stops tw log xs msg = (r1, log1)"
    and "send_messages_to_stops tw log1 ys msg = (r2, log2)"
  shows "send_messages_to_stops tw log (xs @ s # ys) msg =
           (\<lparr>total_stops = total_stops r1 + 1 + total_stops r2,
             messages_sent = messages_sent r1 + messages_sent r2,
             failures = failures r1 + 1 + failures r2,
             details = details r1
               @ \<lparr>d_stop_id = stop_id s, d_status = ''failed'',
                  d_error = Some ''No phone number'', d_phone = None,
                  d_message_sid = None\<rparr>
               # details r2\<rparr>, log2)
       \<and> snd (send_messages_to_stops tw log (xs @ s # ys) msg)
           = snd (send_messages_to_stops tw log (xs @ ys) msg)
       \<and> snd (handle_stop tw msg (r, l) s) = l
       \<and> (phone_number cs = [] \<longrightarrow>
            process_stops ctw templates dry_run (pre @ cs # post) (res, clog)
              = process_stops ctw templates dry_run (pre @ post) (res, clog))
       \<and> (phone_number cs = [] \<and> incomplete_stops R = pre @ cs # post \<longrightarrow>
            process_routes ctw templates dry_run (R # routes) (res, clog) =
              (case process_stops ctw templates dry_run (pre @ post) (res, clog) of
                 (Inl e, log') \<Rightarrow> (Inl e, log')
               | (Inr res', log') \<Rightarrow>
                   process_routes ctw templates dry_run routes (res', log')))"
proof -
  have h: "handle_stop tw msg (zero_results 1, log1) s
             = (record_failure (no_phone_detail s) (zero_results 1), log1)"
    by (rule handle_stop_no_phone [OF assms(1)])
  from send_messages_to_stops_cons [OF h assms(3)]
  have "send_messages_to_stops tw log1 (s # ys) msg =
          (\<lparr>total_stops = 1 + total_stops r2, messages_sent = messages_sent r2,
            failures = 1 + failures r2,
            details = no_phone_detail s # details r2\<rparr>, log2)"
    by (simp add: record_failure_def zero_results_def)
  from send_messages_to_stops_append [OF assms(2) this]
  have full: "send_messages_to_stops tw log (xs @ s # ys) msg =
           (\<lparr>total_stops = total_stops r1 + 1 + total_stops r2,
             messages_sent = messages_sent r1 + messages_sent r2,
             failures = failures r1 + 1 + failures r2,
             details = details r1 @ no_phone_detail s # details r2\<rparr>, log2)"
    by simp
  have without: "snd (send_messages_to_stops tw log (xs @ ys) msg) = log2"
    using send_messages_to_stops_append [OF assms(2,3)] by simp
  have turn: "snd (handle_stop tw msg (r, l) s) = l"
    by (simp add: handle_stop_no_phone [OF assms(1)])
  have web: "send_messages_to_stops tw log (xs @ s # ys) msg =
           (\<lparr>total_stops = total_stops r1 + 1 + total_stops r2,
             messages_sent = messages_sent r1 + messages_sent r2,
             failures = failures r1 + 1 + failures r2,
             details = details r1
               @ \<lparr>d_stop_id = stop_id s, d_status = ''failed'',
                  d_error = Some ''No phone number'', d_phone = None,
                  d_message_sid = None\<rparr>
               # details r2\<rparr>, log2)
       \<and> snd (send_messages_to_stops tw log (xs @ s # ys) msg)
           = snd (send_messages_to_stops tw log (xs @ ys) msg)
       \<and> snd (handle_stop tw msg (r, l) s) = l"
    using full without turn by (simp add: no_phone_detail_def)
  have cli1: "phone_number cs = [] \<longrightarrow>
            process_stops ctw templates dry_run (pre @ cs # post) (res, clog)
              = process_stops ctw templates dry_run (pre @ post) (res, clog)"
    using process_stops_skips_no_phone by blast
  have cli2: "phone_number cs = [] \<and> incomplete_stops R = pre @ cs # post \<longrightarrow>
            process_routes ctw templates dry_run (R # routes) (res, clog) =
              (case process_stops ctw templates dry_run (pre @ post) (res, clog) of
                 (Inl e, log') \<Rightarrow> (Inl e, log')
               | (Inr res', log') \<Rightarrow>
                   process_routes ctw templates dry_run routes (res', log'))"
    using process_routes_skips_no_phone by blast
  from web cli1 cli2 show ?thesis
    by blast
qed

lemma example_Route_incomplete:
  "incomplete_stops example_Route =
     [] @ example_route_stop ''A'' ''OUT_FOR_DELIVERY'' None
        # [example_route_stop ''B'' ''READY_FOR_DELIVERY'' (Some ''(555) 123-0002'')]"
  by (simp add: incomplete_stops_def is_incomplete_def example_Route_def example_route_stop_def)

lemma example_process_B:
  "process_stops example_twilio example_templates False
     ([] @ [example_route_stop ''B'' ''READY_FOR_DELIVERY'' (Some ''(555) 123-0002'')])
     ([], []) =
     (Inr [Success ''SM0001'' ''queued'' ''+15551230002''],
      [FormatPhoneNumber ''(555) 123-0002'',
       MessagesCreate ''Hello Customer, your delivery is on its way''
         ''+15550000000'' ''+15551230002''])"
  by (simp add: example_route_stop_def phone_number_def customer_name_def
      example_templates_def send_message_def Let_def example_twilio_def
      format_phone_number_def isdigit_def)

theorem no_phone_stop_recorded_not_dispatched_witness:
  "fst (send_messages_to_stops example_twilio [] [stop_B, stop_A, stop_C] ''Hi'') =
     \<lparr>total_stops = 3, messages_sent = 1, failures = 2,
       details =
         [\<lparr>d_stop_id = ''B'', d_status = ''sent'', d_error = None,
           d_phone = Some ''0002'', d_message_sid = Some ''SM0001''\<rparr>,
          \<lparr>d_stop_id = ''A'', d_status = ''failed'',
           d_error = Some ''No phone number'', d_phone = None, d_message_sid = None\<rparr>,
          \<lparr>d_stop_id = ''C'', d_status = ''failed'', d_error = Some ''InvalidNumber'',
           d_phone = Some ''12'', d_message_sid = None\<rparr>]\<rparr>
   \<and> snd (send_messages_to_stops example_twilio [] [stop_B, stop_A, stop_C] ''Hi'')
       = snd (send_messages_to_stops example_twilio [] [stop_B, stop_C] ''Hi'')
   \<and> process_routes example_twilio example_templates False [example_Route] ([], []) =
       (Inr [Success ''SM0001'' ''queued'' ''+15551230002''],
        [FormatPhoneNumber ''(555) 123-0002'',
         MessagesCreate ''Hello Customer, your delivery is on its way''
           ''+15550000000'' ''+15551230002''])"
proof -
  have a: "falsy (stop_phone stop_A)"
    by (simp add: falsy_def stop_phone_def stop_A_def example_stop_def)
  have i: "stop_id stop_A = ''A''"
    by (simp add: stop_A_def example_stop_def)
  have n: "phone_number (example_route_stop ''A'' ''OUT_FOR_DELIVERY'' None) = []"
    by (simp add: phone_number_def example_route_stop_def)
  note t = no_phone_stop_recorded_not_dispatched
         [OF a example_run_B example_run_C_after_B, where r = "zero_results 0" and l = "[]"
            and cs = "example_route_stop ''A'' ''OUT_FOR_DELIVERY'' None"
            and R = example_Route and pre = "[]"
            and post = "[example_route_stop ''B'' ''READY_FOR_DELIVERY'' (Some ''(555) 123-0002'')]"
            and ctw = example_twilio and templates = example_templates
            and dry_run = False and routes = "[]" and res = "[]" and clog = "[]"]
  from t [THEN conjunct2, THEN conjunct1]
  have "snd (send_messages_to_stops example_twilio [] [stop_B, stop_A, stop_C] ''Hi'')
       = snd (send_messages_to_stops example_twilio [] [stop_B, stop_C] ''Hi'')"
    by simp
  moreover from t [THEN conjunct1]
  have "fst (send_messages_to_stops example_twilio [] [stop_B, stop_A, stop_C] ''Hi'')
       = \<lparr>total_stops = 3, messages_sent = 1, failures = 2,
       details =
         [\<lparr>d_stop_id = ''B'', d_status = ''sent'', d_error = None,
           d_phone = Some ''0002'', d_message_sid = Some ''SM0001''\<rparr>,
          \<lparr>d_stop_id = ''A'', d_status = ''failed'',
           d_error = Some ''No phone number'', d_phone = None, d_message_sid = None\<rparr>,
          \<lparr>d_stop_id = ''C'', d_status = ''failed'', d_error = Some ''InvalidNumber'',
           d_phone = Some ''12'', d_message_sid = None\<rparr>]\<rparr>"
    by (simp add: i)
  moreover
  from t [THEN conjunct2, THEN conjunct2, THEN conjunct2, THEN conjunct2] n
    example_Route_incomplete
  have "process_routes example_twilio example_templates False [example_Route] ([], []) =
          (case process_stops example_twilio example_templates False
                  ([] @ [example_route_stop ''B'' ''READY_FOR_DELIVERY''
                           (Some ''(555) 123-0002'')]) ([], []) of
             (Inl e, log') \<Rightarrow> (Inl e, log')
           | (Inr res', log') \<Rightarrow>
               process_routes example_twilio example_templates False [] (res', log'))"
    by blast
  then have "process_routes example_twilio example_templates False [example_Route] ([], []) =
       (Inr [Success ''SM0001'' ''queued'' ''+15551230002''],
        [FormatPhoneNumber ''(555) 123-0002'',
         MessagesCreate ''Hello Customer, your delivery is on its way''
           ''+15550000000'' ''+15551230002''])"
    by (simp only: example_process_B prod.case sum.case process_routes.simps)
  ultimately show ?thesis
    by simp
qed

text \<open>
  The route \<open>no_phone_Route\<close> has one incomplete stop, without a phone: \<^verbatim>\<open>process_routes\<close>
  returns an empty result list, with no failed entry for that stop.
\<close>

theorem no_phone_stop_unrecorded_counterexample:
  "map rs_id (incomplete_stops no_phone_Route) = [''A'']
   \<and> map phone_number (incomplete_stops no_phone_Route) = [[]]
   \<and> process_routes example_twilio example_templates False [no_phone_Route] ([], [])
       = (Inr [], [])
   \<and> process_routes example_twilio example_templates True [no_phone_Route] ([], [])
       = (Inr [], [])"
  by (simp add: incomplete_stops_def is_incomplete_def no_phone_Route_def
      example_route_stop_def phone_number_def)


text \<open>
  C9. The \<open>phone\<close> field of an entry is meant to hold the last four digits of the
  recipient's number only. The code stores \<^verbatim>\<open>phone_number[-4:]\<close>, the last four characters of
  the contact's phone string as the backend gave it: for the number \<^verbatim>\<open>06 12 34 56 78\<close> the
  field is \<^verbatim>\<open>6 78\<close>, not the last four digits \<^verbatim>\<open>5678\<close>, and for the short number \<^verbatim>\<open>12\<close> the
  field is the whole number.
\<close>

theorem phone_field_is_last_four_characters:
  "send_messages_to_stops example_twilio [] [stop_F] ''Hi'' =
     (\<lparr>total_stops = 1, messages_sent = 0, failures = 1,
       details = [\<lparr>d_stop_id = ''F'', d_status = ''failed'', d_error = Some ''InvalidNumber'',
                   d_phone = Some ''6 78'', d_message_sid = None\<rparr>]\<rparr>,
      [FormatPhoneNumber ''06 12 34 56 78'',
       MessagesCreate ''Hi'' ''+15550000000'' ''+10612345678''])
   \<and> stop_phone stop_F = Some ''06 12 34 56 78''
   \<and> last4 (re_sub_nondigit ''06 12 34 56 78'') = ''5678''
   \<and> map d_phone (details (fst (send_messages_to_stops example_twilio [] [stop_C] ''Hi'')))
       = [stop_phone stop_C]"
  by (simp add: send_messages_to_stops_def handle_stop_def send_message_def Let_def
      example_twilio_def format_phone_number_def isdigit_def stop_phone_def stop_F_def
      stop_C_def example_stop_def record_failure_def failed_detail_def last4_def)


section \<open>Properties of the request handler\<close>

text \<open>Validation comes first: a request without a route number or a message is refused.\<close>

lemma send_sms_missing_input:
  "falsy (route_number data) \<or> falsy (message data) \<Longrightarrow>
   send_sms easyroutes twilio log data =
     ((ErrorJson ''Route number and message are required'', 400), log)"
  by (simp add: send_sms_def)

lemma send_sms_valid:
  assumes "route_number data = Some rn" and "rn \<noteq> []"
    and "message data = Some msg" and "msg \<noteq> []" and "length msg \<le> 160"
  shows "send_sms easyroutes twilio log data =
     (case get_route_by_number easyroutes rn of
        Inl (Exception e) \<Rightarrow> ((ErrorJson e, 500), log)
      | Inr None \<Rightarrow> ((ErrorJson (''Route '' @ rn @ '' not found''), 404), log)
      | Inr (Some r) \<Rightarrow>
          (case get_incomplete_stops easyroutes (route_id r) of
             Inl (Exception e) \<Rightarrow> ((ErrorJson e, 500), log)
           | Inr stops \<Rightarrow>
               if stops = []
               then ((SuccessJson (Some ''No incomplete stops found for this route'')
                        \<lparr>total_stops = 0, messages_sent = 0, failures = 0,
                         details = []\<rparr>, 200), log)
               else ((SuccessJson None (fst (send_messages_to_stops twilio log stops msg)), 200),
                     snd (send_messages_to_stops twilio log stops msg))))"
  using assms by (simp add: send_sms_def falsy_def split: sum.splits option.splits exn.splits prod.splits)

text \<open>
  What the handler does for a route with no incomplete stop (the request being valid and
  the route found): it answers with success, status 200, the note
  \<^verbatim>\<open>No incomplete stops found for this route\<close> and results whose counts are all zero and
  whose details are empty; nothing is normalised or sent (the trace is unchanged).
\<close>

lemma no_incomplete_stops_short_circuit:
  assumes "route_number data = Some rn" and "rn \<noteq> []"
    and "message data = Some msg" and "msg \<noteq> []" and "length msg \<le> 160"
    and "get_route_by_number easyroutes rn = Inr (Some r)"
    and "get_route easyroutes (route_id r) = Inr r'"
    and "filter (\<lambda>s. deliveryStatus s \<noteq> Some ''DELIVERED'') (stops_of r') = []"
  shows "send_sms easyroutes twilio log data =
     ((SuccessJson (Some ''No incomplete stops found for this route'')
         \<lparr>total_stops = 0, messages_sent = 0, failures = 0, details = []\<rparr>, 200), log)"
proof -
  have "get_incomplete_stops easyroutes (route_id r) = Inr []"
    using assms(7,8) by (simp add: get_incomplete_stops_def incomplete_loop_filter)
  then show ?thesis
    using assms(6) by (simp add: send_sms_valid [OF assms(1-5)])
qed

lemma no_incomplete_stops_short_circuit_example:
  "send_sms example_easyroutes example_twilio []
     \<lparr>route_number = Some ''RT-2'', message = Some ''Hi''\<rparr> =
     ((SuccessJson (Some ''No incomplete stops found for this route'')
         \<lparr>total_stops = 0, messages_sent = 0, failures = 0, details = []\<rparr>, 200), [])"
proof -
  have "get_route_by_number example_easyroutes ''RT-2'' = Inr (Some delivered_route)"
    and "get_route example_easyroutes (route_id delivered_route) = Inr delivered_route"
    and "filter (\<lambda>s. deliveryStatus s \<noteq> Some ''DELIVERED'') (stops_of delivered_route) = []"
    by (simp_all add: example_easyroutes_def delivered_route_def stops_of_def stop_D_def
        example_stop_def)
  note backend = this
  let ?data = "\<lparr>route_number = Some ''RT-2'', message = Some ''Hi''\<rparr>"
  have "route_number ?data = Some ''RT-2''" and "''RT-2'' \<noteq> []"
    and "message ?data = Some ''Hi''" and "''Hi'' \<noteq> []" and "length ''Hi'' \<le> 160"
    by simp_all
  from no_incomplete_stops_short_circuit [OF this backend]
  show ?thesis .
qed

text \<open>
  C5. For a route with no incomplete stop the result is meant to report the route's stop
  count in \<open>total_stops\<close> and \<open>incomplete_stops = 0\<close>, as the results display of the
  frontend reads them. The handler's short circuit returns the literal \<open>total_stops = 0\<close>
  and no \<open>incomplete_stops\<close> at all: for \<open>delivered_route\<close>, which has two stops, both
  delivered, it reports \<open>total_stops = 0\<close>, not 2.
\<close>

theorem short_circuit_reports_zero_total_stops:
  "filter (\<lambda>s. deliveryStatus s \<noteq> Some ''DELIVERED'') (stops_of delivered_route) = []
   \<and> int (length (stops_of delivered_route)) = 2
   \<and> send_sms example_easyroutes example_twilio []
         \<lparr>route_number = Some ''RT-2'', message = Some ''Hi''\<rparr> =
       ((SuccessJson (Some ''No incomplete stops found for this route'')
           \<lparr>total_stops = 0, messages_sent = 0, failures = 0, details = []\<rparr>, 200), [])
   \<and> map_option total_stops
        (response_results (fst (fst (send_sms example_easyroutes example_twilio []
           \<lparr>route_number = Some ''RT-2'', message = Some ''Hi''\<rparr>))))
       \<noteq> Some (int (length (stops_of delivered_route)))"
  by (simp add: send_sms_def falsy_def get_incomplete_stops_def response_results_def
      example_easyroutes_def delivered_route_def stops_of_def stop_D_def example_stop_def)

text \<open>
  C8. A request whose message is longer than 160 characters is answered with an error
  (status 400) and the trace is unchanged: nothing is normalised, nothing is sent, and no
  shortened message goes out. (When the route number is missing as well, the error is the
  one for missing input.)
\<close>

theorem overlong_message_rejected:
  assumes "message data = Some msg" and "length msg > 160"
  shows "send_sms easyroutes twilio log data =
     ((ErrorJson (if falsy (route_number data)
                  then ''Route number and message are required''
                  else ''Message too long (max 160 characters)''), 400), log)"
  using assms by (auto simp: send_sms_def falsy_def split: option.splits)

theorem overlong_message_rejected_witness:
  "send_sms example_easyroutes example_twilio []
     \<lparr>route_number = Some ''RT-1'', message = Some (replicate 161 CHR ''x'')\<rparr> =
     ((ErrorJson ''Message too long (max 160 characters)'', 400), [])"
  using overlong_message_rejected
    [of "\<lparr>route_number = Some ''RT-1'', message = Some (replicate 161 CHR ''x'')\<rparr>"
        "replicate 161 CHR ''x''" example_easyroutes example_twilio "[]"]
  by (simp add: falsy_def)

text \<open>A message of exactly 160 characters passes the length check.\<close>

lemma send_sms_accepts_160:
  "send_sms example_easyroutes example_twilio []
     \<lparr>route_number = Some ''RT-2'', message = Some (replicate 160 CHR ''x'')\<rparr> =
     ((SuccessJson (Some ''No incomplete stops found for this route'')
         \<lparr>total_stops = 0, messages_sent = 0, failures = 0, details = []\<rparr>, 200), [])"
  by (simp add: send_sms_def falsy_def get_incomplete_stops_def
      example_easyroutes_def delivered_route_def stops_of_def stop_D_def example_stop_def)


end
